theory Spec2Isabelle
  imports Main "HOL-Library.Sublist"
begin

section \<open>JavaScript values and strings\<close>

text \<open>
  A JavaScript string is modelled as a \<open>string\<close>: one \<open>char\<close> per code unit, for code
  units below 256. A value produced by \<open>JSON.parse\<close>, or by reading a member of such a
  value, is a \<open>jsval\<close>; \<open>JUndefined\<close> is what reading an absent member gives. Numbers
  are kept abstract (type \<open>'n\<close>): the runtime says which numbers are truthy and how a
  number is rendered when it is concatenated to a string.
\<close>

datatype 'n jsval =
    JUndefined
  | JNull
  | JBool bool
  | JNum 'n
  | JStr string
  | JArr "'n jsval list"
  | JObj "(string \<times> 'n jsval) list"

text \<open>
  The language runtime the decoders call: \<open>JSON.parse\<close> (\<open>None\<close> when it throws a
  SyntaxError; an object is delivered with duplicate keys already resolved), the
  truthiness of a number and \<open>Number.prototype.toString\<close>.
\<close>

record 'n runtime =
  JSON_parse :: "string \<Rightarrow> 'n jsval option"
  num_truthy :: "'n \<Rightarrow> bool"
  num_toString :: "'n \<Rightarrow> string"

fun truthy :: "'n runtime \<Rightarrow> 'n jsval \<Rightarrow> bool" where
  "truthy rt JUndefined = False"
| "truthy rt JNull = False"
| "truthy rt (JBool b) = b"
| "truthy rt (JNum n) = num_truthy rt n"
| "truthy rt (JStr s) = (s \<noteq> [])"
| "truthy rt (JArr xs) = True"
| "truthy rt (JObj kvs) = True"

text \<open>\<open>d.k\<close> for a value \<open>d\<close> that is neither null nor undefined and a key \<open>k\<close> that
  no prototype defines (text, content, response, assistant_id, thread_id).\<close>

fun member_of :: "'n jsval \<Rightarrow> string \<Rightarrow> 'n jsval" where
  "member_of (JObj kvs) k = (case map_of kvs k of None \<Rightarrow> JUndefined | Some v \<Rightarrow> v)"
| "member_of d k = JUndefined"

text \<open>Reading a member of null or undefined throws a TypeError.\<close>

fun nullish :: "'n jsval \<Rightarrow> bool" where
  "nullish JUndefined = True"
| "nullish JNull = True"
| "nullish d = False"

text \<open>\<open>a || b\<close>: the first operand when it is truthy, the second otherwise.\<close>

definition js_or :: "'n runtime \<Rightarrow> 'n jsval \<Rightarrow> 'n jsval \<Rightarrow> 'n jsval" where
  "js_or rt a b = (if truthy rt a then a else b)"

fun join_comma :: "string list \<Rightarrow> string" where
  "join_comma [] = []"
| "join_comma [s] = s"
| "join_comma (s # t # ss) = s @ '','' @ join_comma (t # ss)"

text \<open>
  The string that \<open>acc += v\<close> appends, or \<open>None\<close> when the conversion throws a TypeError.
  An object parsed from JSON has no callable member of its own: when it has an own
  \<open>toString\<close> key, that value hides \<open>Object.prototype.toString\<close>, no conversion method
  gives a primitive and the conversion throws; otherwise it renders as
  \<open>[object Object]\<close>. An array is the comma-joined rendering of its elements, where null
  and undefined elements render as the empty string; it throws when an element does.
\<close>

fun toStr :: "'n runtime \<Rightarrow> 'n jsval \<Rightarrow> string option" where
  "toStr rt JUndefined = Some ''undefined''"
| "toStr rt JNull = Some ''null''"
| "toStr rt (JBool b) = Some (if b then ''true'' else ''false'')"
| "toStr rt (JNum n) = Some (num_toString rt n)"
| "toStr rt (JStr s) = Some s"
| "toStr rt (JArr xs) =
     map_option join_comma (those (map (\<lambda>x. if nullish x then Some [] else toStr rt x) xs))"
| "toStr rt (JObj kvs) =
     (if map_of kvs ''toString'' \<noteq> None then None else Some ''[object Object]'')"

definition isWhiteSpace :: "char \<Rightarrow> bool" where
  "isWhiteSpace c = (c \<in> set [CHR 0x09, CHR 0x0A, CHR 0x0B, CHR 0x0C, CHR 0x0D, CHR 0x20, CHR 0xA0])"

definition trim :: "string \<Rightarrow> string" where
  "trim s = rev (dropWhile isWhiteSpace (rev (dropWhile isWhiteSpace s)))"

definition startsWith :: "string \<Rightarrow> string \<Rightarrow> bool" where
  "startsWith s p = (take (length p) s = p)"

definition slice :: "nat \<Rightarrow> string \<Rightarrow> string" where
  "slice n s = drop n s"

text \<open>\<open>s.split('\n')\<close>: the pieces between line feeds; never empty.\<close>

fun split_newline :: "string \<Rightarrow> string list" where
  "split_newline [] = [[]]"
| "split_newline (c # cs) =
     (if c = CHR 0x0A then [] # split_newline cs
      else (case split_newline cs of
              [] \<Rightarrow> [[c]]
            | l # ls \<Rightarrow> (c # l) # ls))"


section \<open>The streaming operations (services/api)\<close>

text \<open>
  What \<open>fetch\<close> and the body reader deliver for one streaming request: the request is
  rejected, the response is not ok, it has no readable body, or the reader yields the
  given chunks (each already decoded by \<open>TextDecoder.decode\<close>) in arrival order; the
  flag says whether the read after the last chunk signals \<open>done\<close> (\<open>True\<close>) or rejects
  (\<open>False\<close>).
\<close>

datatype fetch_reply = FetchRejected | NotOk | NoBody | Body "string list" bool

datatype error =
    FetchFailed
  | HttpError
  | BodyNotReadable
  | ReadFailed
  | NoResponseData

datatype jsfile = File (file_name: string)

text \<open>The calls a streaming operation makes on the callbacks it was given, in order.\<close>

datatype 'n callback = OnChunk string | OnAssistantId "'n jsval" | OnThreadId "'n jsval"

fun snapshots :: "'n callback list \<Rightarrow> string list" where
  "snapshots [] = []"
| "snapshots (OnChunk s # evs) = s # snapshots evs"
| "snapshots (ev # evs) = snapshots evs"

subsection \<open>sendMessageStream\<close>

text \<open>One iteration of \<open>for (const line of lines)\<close>: the accumulated text after the line
  and the callbacks made. A SyntaxError of \<open>JSON.parse\<close>, the TypeError of reading
  \<open>text\<close> of \<open>null\<close> and the TypeError of a concatenation that cannot convert its
  operand are all caught and only logged.\<close>

definition send_line :: "'n runtime \<Rightarrow> string \<Rightarrow> string \<Rightarrow> string \<times> 'n callback list" where
  "send_line rt accumulatedText line =
     (if startsWith line ''data: '' then
        (case JSON_parse rt (slice 6 line) of
           None \<Rightarrow> (accumulatedText, [])
         | Some d \<Rightarrow>
             if nullish d then (accumulatedText, [])
             else if truthy rt (member_of d ''text'') then
               (case toStr rt (member_of d ''text'') of
                  None \<Rightarrow> (accumulatedText, [])
                | Some t \<Rightarrow> (accumulatedText @ t, [OnChunk (accumulatedText @ t)]))
             else (accumulatedText, []))
      else (accumulatedText, []))"

fun send_lines :: "'n runtime \<Rightarrow> string \<Rightarrow> string list \<Rightarrow> string \<times> 'n callback list" where
  "send_lines rt acc [] = (acc, [])"
| "send_lines rt acc (line # lines) =
     (case send_line rt acc line of (acc1, evs1) \<Rightarrow>
        (case send_lines rt acc1 lines of (acc2, evs2) \<Rightarrow> (acc2, evs1 @ evs2)))"

text \<open>The \<open>while (true)\<close> loop over the chunks the reader yields.\<close>

fun send_chunks :: "'n runtime \<Rightarrow> string \<Rightarrow> string list \<Rightarrow> string \<times> 'n callback list" where
  "send_chunks rt acc [] = (acc, [])"
| "send_chunks rt acc (chunk # chunks) =
     (case send_lines rt acc (split_newline chunk) of (acc1, evs1) \<Rightarrow>
        (case send_chunks rt acc1 chunks of (acc2, evs2) \<Rightarrow> (acc2, evs1 @ evs2)))"

text \<open>The callbacks made and the outcome: the thrown error or the returned text.\<close>

definition sendMessageStream ::
  "'n runtime \<Rightarrow> (string \<Rightarrow> fetch_reply) \<Rightarrow> string \<Rightarrow> 'n callback list \<times> (error + string)" where
  "sendMessageStream rt fetch_chat_stream message =
     (case fetch_chat_stream message of
        FetchRejected \<Rightarrow> ([], Inl FetchFailed)
      | NotOk \<Rightarrow> ([], Inl HttpError)
      | NoBody \<Rightarrow> ([], Inl BodyNotReadable)
      | Body chunks ended \<Rightarrow>
          (case send_chunks rt [] chunks of (accumulatedText, evs) \<Rightarrow>
             if \<not> ended then (evs, Inl ReadFailed)
             else (evs, Inr accumulatedText)))"

subsection \<open>ragQueryStream\<close>

text \<open>Which of the optional metadata callbacks the caller passed.\<close>

record callbacks =
  onAssistantId_given :: bool
  onThreadId_given :: bool

text \<open>The decoder's variables \<open>accumulatedText\<close> and \<open>receivedData\<close>.\<close>

type_synonym rag_state = "string \<times> bool"

text \<open>The \<open>try\<close> block of an event-data line after \<open>JSON.parse\<close> has returned a value
  whose members can be read. \<open>None\<close>: the concatenation \<open>accumulatedText += textContent\<close>
  throws a TypeError, before anything is assigned or called.\<close>

definition rag_parsed ::
  "'n runtime \<Rightarrow> callbacks \<Rightarrow> rag_state \<Rightarrow> 'n jsval
     \<Rightarrow> (rag_state \<times> 'n callback list) option" where
  "rag_parsed rt cb st d =
     (let text_step =
            (if truthy rt (member_of d ''text'') \<or> truthy rt (member_of d ''content'')
                \<or> truthy rt (member_of d ''response'')
             then
               (let textContent = js_or rt (member_of d ''text'')
                                    (js_or rt (member_of d ''content'') (member_of d ''response''))
                in (case toStr rt textContent of
                      None \<Rightarrow> None
                    | Some t \<Rightarrow> Some ((fst st @ t, True), [OnChunk (fst st @ t)])))
             else Some (st, []));
          assistant_step =
            (if truthy rt (member_of d ''assistant_id'') \<and> onAssistantId_given cb
             then [OnAssistantId (member_of d ''assistant_id'')] else []);
          thread_step =
            (if truthy rt (member_of d ''thread_id'') \<and> onThreadId_given cb
             then [OnThreadId (member_of d ''thread_id'')] else [])
      in (case text_step of
            None \<Rightarrow> None
          | Some (st1, evs) \<Rightarrow> Some (st1, evs @ assistant_step @ thread_step)))"

text \<open>The \<open>catch\<close> block of an event-data line.\<close>

definition rag_raw :: "rag_state \<Rightarrow> string \<Rightarrow> rag_state \<times> 'n callback list" where
  "rag_raw st line =
     (let rawText = trim (slice 6 line)
      in if rawText \<noteq> [] \<and> rawText \<noteq> ''[DONE]''
         then ((fst st @ rawText, True), [OnChunk (fst st @ rawText)])
         else (st, []))"

text \<open>One iteration of \<open>for (const line of lines)\<close>; the first component says whether the
  iteration ended in \<open>break\<close>.\<close>

definition rag_line ::
  "'n runtime \<Rightarrow> callbacks \<Rightarrow> rag_state \<Rightarrow> string \<Rightarrow> bool \<times> rag_state \<times> 'n callback list" where
  "rag_line rt cb st line =
     (if trim line = [] then (False, st, [])
      else if startsWith line ''data: '' then
        (let jsonData = trim (slice 6 line)
         in if jsonData = ''[DONE]'' then (True, st, [])
            else (case JSON_parse rt jsonData of
                    None \<Rightarrow> (False, rag_raw st line)
                  | Some d \<Rightarrow>
                      if nullish d then (False, rag_raw st line)
                      else (case rag_parsed rt cb st d of
                              None \<Rightarrow> (False, rag_raw st line)
                            | Some r \<Rightarrow> (False, r))))
      else
        (case JSON_parse rt line of
           None \<Rightarrow> (False, (fst st @ line, True), [OnChunk (fst st @ line)])
         | Some d \<Rightarrow>
             if nullish d then (False, (fst st @ line, True), [OnChunk (fst st @ line)])
             else if truthy rt (member_of d ''text'') \<or> truthy rt (member_of d ''content'')
                     \<or> truthy rt (member_of d ''response'')
             then
               (let textContent = js_or rt (member_of d ''text'')
                                    (js_or rt (member_of d ''content'') (member_of d ''response''))
                in (case toStr rt textContent of
                      None \<Rightarrow> (False, (fst st @ line, True), [OnChunk (fst st @ line)])
                    | Some t \<Rightarrow> (False, (fst st @ t, True), [OnChunk (fst st @ t)])))
             else (False, st, [])))"

text \<open>The \<open>for\<close> loop over the lines of one chunk: \<open>break\<close> leaves this loop only.\<close>

fun rag_lines ::
  "'n runtime \<Rightarrow> callbacks \<Rightarrow> rag_state \<Rightarrow> string list \<Rightarrow> rag_state \<times> 'n callback list" where
  "rag_lines rt cb st [] = (st, [])"
| "rag_lines rt cb st (line # lines) =
     (case rag_line rt cb st line of (brk, st1, evs1) \<Rightarrow>
        if brk then (st1, evs1)
        else (case rag_lines rt cb st1 lines of (st2, evs2) \<Rightarrow> (st2, evs1 @ evs2)))"

text \<open>The \<open>while (true)\<close> loop: it ends only when the reader signals \<open>done\<close>.\<close>

fun rag_chunks ::
  "'n runtime \<Rightarrow> callbacks \<Rightarrow> rag_state \<Rightarrow> string list \<Rightarrow> rag_state \<times> 'n callback list" where
  "rag_chunks rt cb st [] = (st, [])"
| "rag_chunks rt cb st (chunk # chunks) =
     (case rag_lines rt cb st (split_newline chunk) of (st1, evs1) \<Rightarrow>
        (case rag_chunks rt cb st1 chunks of (st2, evs2) \<Rightarrow> (st2, evs1 @ evs2)))"

definition ragQueryStream ::
  "'n runtime \<Rightarrow> (string \<Rightarrow> jsfile \<Rightarrow> fetch_reply) \<Rightarrow> string \<Rightarrow> jsfile \<Rightarrow> callbacks
     \<Rightarrow> 'n callback list \<times> (error + string)" where
  "ragQueryStream rt fetch_rag_stream question file cb =
     (case fetch_rag_stream question file of
        FetchRejected \<Rightarrow> ([], Inl FetchFailed)
      | NotOk \<Rightarrow> ([], Inl HttpError)
      | NoBody \<Rightarrow> ([], Inl BodyNotReadable)
      | Body chunks ended \<Rightarrow>
          (case rag_chunks rt cb ([], False) chunks of ((accumulatedText, receivedData), evs) \<Rightarrow>
             if \<not> ended then (evs, Inl ReadFailed)
             else if \<not> receivedData then (evs, Inl NoResponseData)
             else (evs, Inr accumulatedText)))"


section \<open>The conversation store (pages/Index)\<close>

datatype role = User | Assistant

datatype error_type = Network | Timeout | Server | Client | Unknown

text \<open>An optional field (\<open>isNew?\<close>, \<open>errorType?\<close>, ...) is \<open>None\<close> when it is absent or
  undefined. A \<open>Date\<close> is its time value in milliseconds.\<close>

record message =
  role :: role
  content :: string
  isNew :: "bool option"
  isThinking :: "bool option"
  isError :: "bool option"
  errorType :: "error_type option"
  timestamp :: int
  msg_id :: string

record conversation =
  conv_id :: string
  title :: string
  messages :: "message list"
  document :: "jsfile option"

datatype loading_type = Uploading | Processing | Thinking | Searching

text \<open>The state of the Index component that its handlers read and write.\<close>

record index_state =
  conversations :: "conversation list"
  currentConversationId :: "string option"
  showWelcome :: bool
  shouldAutoScroll :: bool
  messageCount :: int
  isLoading :: bool
  loadingType :: loading_type
  lastError :: "string option"

text \<open>The clock readings of one call of \<open>handleMessageSent\<close>: \<open>new Date()\<close> and the
  three \<open>Date.now()\<close> calls (user id, assistant id, conversation id).\<close>

record clock =
  new_Date :: int
  now_user :: int
  now_assistant :: int
  now_conversation :: int

definition digit_char :: "nat \<Rightarrow> char" where
  "digit_char d = ''0123456789'' ! d"

fun show_nat :: "nat \<Rightarrow> string" where
  "show_nat n = (if n < 10 then [digit_char n] else show_nat (n div 10) @ [digit_char (n mod 10)])"

text \<open>The decimal rendering of an integer time value, as a template literal or
  \<open>toString()\<close> gives it.\<close>

definition show_int :: "int \<Rightarrow> string" where
  "show_int i = (if i < 0 then CHR ''-'' # show_nat (nat (- i)) else show_nat (nat i))"

text \<open>\<open>toLowerCase\<close> on code units below 256: A to Z and the Latin-1 capitals (0xC0 to
  0xDE without the multiplication sign 0xD7) move up by 32.\<close>

definition lower_char :: "char \<Rightarrow> char" where
  "lower_char c =
     (let n = (of_char c :: nat)
      in if (65 \<le> n \<and> n \<le> 90) \<or> (192 \<le> n \<and> n \<le> 222 \<and> n \<noteq> 215) then char_of (n + 32) else c)"

definition toLowerCase :: "string \<Rightarrow> string" where
  "toLowerCase s = map lower_char s"

fun includes_str :: "string \<Rightarrow> string \<Rightarrow> bool" where
  "includes_str [] p = (p = [])"
| "includes_str (c # cs) p = (startsWith (c # cs) p \<or> includes_str cs p)"

definition isErrorResponse :: "string \<Rightarrow> bool" where
  "isErrorResponse aiResponse =
     (includes_str (toLowerCase aiResponse) ''sorry, i encountered an error''
      \<or> includes_str (toLowerCase aiResponse) ''failed to''
      \<or> includes_str (toLowerCase aiResponse) ''error occurred'')"

text \<open>The object the update branch returns for the last assistant message.\<close>

definition updated_message :: "string \<Rightarrow> message \<Rightarrow> message" where
  "updated_message aiResponse msg =
     msg\<lparr>content := aiResponse,
         isThinking := Some False,
         isNew := Some False,
         isError := Some (isErrorResponse aiResponse),
         errorType := (if isErrorResponse aiResponse then Some Server else None)\<rparr>"

text \<open>\<open>conv.messages.map((msg, index) => ...)\<close>: at each position the rest of the list
  is \<open>conv.messages.slice(index + 1)\<close>, and it is empty exactly at the last index.\<close>

fun update_messages :: "string \<Rightarrow> message list \<Rightarrow> message list" where
  "update_messages aiResponse [] = []"
| "update_messages aiResponse (msg # rest) =
     (if role msg = Assistant \<and> (rest = [] \<or> \<not> list_ex (\<lambda>m. role m = Assistant) rest)
      then updated_message aiResponse msg
      else msg) # update_messages aiResponse rest"

text \<open>\<open>isTargetConversation\<close>, for the \<open>currentConversationId\<close> the handler's closure
  holds and the list the updater receives.\<close>

definition isTargetConversation :: "string option \<Rightarrow> conversation list \<Rightarrow> conversation \<Rightarrow> bool" where
  "isTargetConversation cid prevConvs conv =
     (Some (conv_id conv) = cid \<or> (cid = None \<and> length prevConvs = 1))"

definition update_conversations ::
  "string option \<Rightarrow> string \<Rightarrow> conversation list \<Rightarrow> conversation list" where
  "update_conversations cid aiResponse prevConvs =
     map (\<lambda>conv. if isTargetConversation cid prevConvs conv
                  then conv\<lparr>messages := update_messages aiResponse (messages conv)\<rparr>
                  else conv) prevConvs"

text \<open>Inside the updater, \<open>setCurrentConversationId(conv.id)\<close> runs for each target
  conversation when the closure's id is null; the last call decides.\<close>

definition selected_by_update :: "string option \<Rightarrow> conversation list \<Rightarrow> string option \<Rightarrow> string option" where
  "selected_by_update cid prevConvs current =
     (if cid = None
      then (case filter (isTargetConversation cid prevConvs) prevConvs of
              [] \<Rightarrow> current
            | c # cs \<Rightarrow> Some (conv_id (last (c # cs))))
      else current)"

definition new_messages :: "clock \<Rightarrow> string \<Rightarrow> string \<Rightarrow> message list" where
  "new_messages clk userMessage aiResponse =
     [\<lparr>role = User, content = userMessage, isNew = Some True, isThinking = None,
       isError = None, errorType = None, timestamp = new_Date clk,
       msg_id = ''user-'' @ show_int (now_user clk)\<rparr>,
      \<lparr>role = Assistant, content = aiResponse, isNew = None,
       isThinking = Some (aiResponse = ''Unico AI is thinking...''),
       isError = None, errorType = None, timestamp = new_Date clk + 1,
       msg_id = ''assistant-'' @ show_int (now_assistant clk)\<rparr>]"

text \<open>
  \<open>handleMessageSent(userMessage, aiResponse, isUpdate)\<close>. The first argument \<open>cid\<close> is
  the \<open>currentConversationId\<close> of the render whose closure is called; the state is the
  one the queued updaters run on.
\<close>

definition handleMessageSent ::
  "clock \<Rightarrow> string option \<Rightarrow> string \<Rightarrow> string \<Rightarrow> bool \<Rightarrow> index_state \<Rightarrow> index_state" where
  "handleMessageSent clk cid userMessage aiResponse isUpdate st =
     (if isUpdate then
        st\<lparr>lastError := None,
           conversations := update_conversations cid aiResponse (conversations st),
           currentConversationId :=
             selected_by_update cid (conversations st) (currentConversationId st),
           isLoading := False\<rparr>
      else
        (let isThinkingResponse = (aiResponse = ''Unico AI is thinking...'');
             st1 = st\<lparr>lastError := None\<rparr>;
             st2 = (if isThinkingResponse then st1\<lparr>isLoading := True, loadingType := Thinking\<rparr>
                    else st1);
             newMessages = new_messages clk userMessage aiResponse;
             st3 =
               (if cid \<noteq> None \<and> cid \<noteq> Some [] then
                  st2\<lparr>conversations :=
                        map (\<lambda>conv. if Some (conv_id conv) = cid
                                     then conv\<lparr>messages := messages conv @ newMessages\<rparr>
                                     else conv) (conversations st2)\<rparr>
                else
                  (let newConversationId = show_int (now_conversation clk);
                       newConversation =
                         \<lparr>conv_id = newConversationId,
                          title = take 20 userMessage
                                    @ (if length userMessage > 20 then ''...'' else []),
                          messages = newMessages,
                          document = None\<rparr>
                   in st2\<lparr>conversations := newConversation # conversations st2,
                          currentConversationId := Some newConversationId\<rparr>))
         in st3\<lparr>showWelcome := False, shouldAutoScroll := True,
                messageCount := messageCount st3 + 2\<rparr>))"

definition handleDocumentUploaded ::
  "string option \<Rightarrow> jsfile option \<Rightarrow> index_state \<Rightarrow> index_state" where
  "handleDocumentUploaded cid file st =
     (if cid \<noteq> None \<and> cid \<noteq> Some [] then
        st\<lparr>conversations :=
             map (\<lambda>conv. if Some (conv_id conv) = cid then conv\<lparr>document := file\<rparr> else conv)
               (conversations st)\<rparr>
      else st)"

text \<open>\<open>findIndex\<close>: the first index whose element satisfies the test, if any.\<close>

fun findIndex :: "('a \<Rightarrow> bool) \<Rightarrow> 'a list \<Rightarrow> nat option" where
  "findIndex P [] = None"
| "findIndex P (x # xs) =
     (if P x then Some 0 else (case findIndex P xs of None \<Rightarrow> None | Some i \<Rightarrow> Some (Suc i)))"

text \<open>\<open>handleRetryMessage(messageId)\<close>, called from the render whose state is \<open>st\<close>.
  \<open>messages[messageIndex - 1]\<close> is undefined at index 0.\<close>

definition handleRetryMessage :: "clock \<Rightarrow> string \<Rightarrow> index_state \<Rightarrow> index_state" where
  "handleRetryMessage clk messageId st =
     (case find (\<lambda>conv. Some (conv_id conv) = currentConversationId st) (conversations st) of
        None \<Rightarrow> st
      | Some currentConv \<Rightarrow>
          (case findIndex (\<lambda>msg. msg_id msg = messageId) (messages currentConv) of
             None \<Rightarrow> st
           | Some messageIndex \<Rightarrow>
               (let message = messages currentConv ! messageIndex
                in if role message = Assistant \<and> 0 < messageIndex
                      \<and> role (messages currentConv ! (messageIndex - 1)) = User
                   then handleMessageSent clk (currentConversationId st)
                          (content (messages currentConv ! (messageIndex - 1)))
                          ''Unico AI is thinking...'' False st
                   else st)))"


section \<open>The dispatcher (components/ChatInput)\<close>

datatype tool = Chat | DeepSearch | Markdown

text \<open>The remote operations of services/api that \<open>handleSubmit\<close> can start.\<close>

datatype remote_op =
    RagQueryStream string jsfile
  | PerformDeepSearch string
  | SendMessage string

text \<open>What a non-streaming request returns: it rejects, or it delivers \<open>response.data\<close>.
  The chat endpoint's data is either falsy or an object whose \<open>response\<close> member, when
  present, is a string (the type \<open>onMessageSent\<close> declares for it).\<close>

datatype 'n search_reply = SearchRejected | SearchData "'n jsval"

datatype chat_data = NoData | ChatData (response: "string option")

datatype chat_reply = ChatRejected | ChatReply chat_data

text \<open>
  The remote service as the component sees it, and \<open>formatSearchResults\<close>, the search
  normalizer of the same component, whose markup is not embedded here; \<open>None\<close> when it
  throws.
\<close>

record 'n network =
  fetch_rag_stream :: "string \<Rightarrow> jsfile \<Rightarrow> fetch_reply"
  post_search :: "string \<Rightarrow> 'n search_reply"
  post_chat :: "string \<Rightarrow> chat_reply"
  formatSearchResults :: "'n jsval \<Rightarrow> string option"

text \<open>The component state and props that the closure of \<open>handleSubmit\<close> holds.\<close>

record chat_input =
  message :: string
  isStreaming :: bool
  selectedTool :: tool
  attachedFile :: "jsfile option"
  conversationDocument :: "jsfile option"

text \<open>What \<open>handleSubmit\<close> does to the outside, in order: its own state setters, the
  calls of the props \<open>onMessageSent\<close> and \<open>onDocumentUploaded\<close>, the start of a remote
  operation, and toasts.\<close>

datatype 'n effect =
    SetMessage string
  | SetIsStreaming bool
  | SetAssistantId "'n jsval"
  | SetThreadId "'n jsval"
  | MessageSent string string bool
  | DocumentUploaded "jsfile option"
  | Remote remote_op
  | Toast string

definition documentToUse :: "chat_input \<Rightarrow> jsfile option" where
  "documentToUse inp =
     (case attachedFile inp of Some f \<Rightarrow> Some f | None \<Rightarrow> conversationDocument inp)"

definition toolName :: "chat_input \<Rightarrow> string" where
  "toolName inp =
     (if documentToUse inp \<noteq> None then ''RAG query''
      else if selectedTool inp = DeepSearch then ''web search''
      else if selectedTool inp = Markdown then ''markdown conversion''
      else ''message'')"

definition errorMessage :: "chat_input \<Rightarrow> string" where
  "errorMessage inp =
     ''Sorry, I encountered an error while processing your '' @ toolName inp
       @ ''. Please try again.''"

text \<open>The \<open>catch\<close> block of \<open>handleSubmit\<close>.\<close>

definition catch_block :: "chat_input \<Rightarrow> 'n effect list" where
  "catch_block inp =
     [SetIsStreaming False,
      MessageSent (message inp) (errorMessage inp) True,
      Toast (''Failed to '' @ toolName inp @ ''. Please try again.'')]"

text \<open>The three callbacks \<open>handleSubmit\<close> passes to \<open>ragQueryStream\<close>.\<close>

fun relay :: "string \<Rightarrow> 'n callback \<Rightarrow> 'n effect" where
  "relay userMessage (OnChunk accumulated) = MessageSent userMessage accumulated True"
| "relay userMessage (OnAssistantId v) = SetAssistantId v"
| "relay userMessage (OnThreadId v) = SetThreadId v"

definition markdownPrompt :: "string \<Rightarrow> string" where
  "markdownPrompt userMessage =
     ''Convert the following text to well-formatted markdown: '' @ userMessage"

text \<open>The chat and markdown branches after \<open>sendMessage\<close> has settled.\<close>

definition chat_outcome :: "chat_input \<Rightarrow> chat_reply \<Rightarrow> 'n effect list" where
  "chat_outcome inp reply =
     (case reply of
        ChatRejected \<Rightarrow> catch_block inp
      | ChatReply NoData \<Rightarrow> catch_block inp
      | ChatReply (ChatData None) \<Rightarrow> catch_block inp
      | ChatReply (ChatData (Some r)) \<Rightarrow>
          if r = [] then catch_block inp else [MessageSent (message inp) r True])"

definition handleSubmit :: "'n runtime \<Rightarrow> 'n network \<Rightarrow> chat_input \<Rightarrow> 'n effect list" where
  "handleSubmit rt net inp =
     (if trim (message inp) = [] \<or> isStreaming inp then []
      else
        (let userMessage = message inp
         in [SetMessage [], MessageSent userMessage ''Friday is thinking...'' False] @
            (case documentToUse inp of
               Some doc \<Rightarrow>
                 [SetIsStreaming True, Remote (RagQueryStream userMessage doc)] @
                 (case ragQueryStream rt (fetch_rag_stream net) userMessage doc
                         \<lparr>onAssistantId_given = True, onThreadId_given = True\<rparr> of
                    (cbs, Inr accumulatedText) \<Rightarrow>
                      map (relay userMessage) cbs
                      @ (if attachedFile inp \<noteq> None then [DocumentUploaded (attachedFile inp)]
                         else [])
                      @ [SetIsStreaming False]
                  | (cbs, Inl e) \<Rightarrow> map (relay userMessage) cbs @ catch_block inp)
             | None \<Rightarrow>
                 if selectedTool inp = DeepSearch then
                   Remote (PerformDeepSearch userMessage) #
                   (case post_search net userMessage of
                      SearchRejected \<Rightarrow> catch_block inp
                    | SearchData searchData \<Rightarrow>
                        if \<not> truthy rt searchData then catch_block inp
                        else (case formatSearchResults net searchData of
                                None \<Rightarrow> catch_block inp
                              | Some r \<Rightarrow> [MessageSent userMessage r True]))
                 else if selectedTool inp = Markdown then
                   Remote (SendMessage (markdownPrompt userMessage)) #
                   chat_outcome inp (post_chat net (markdownPrompt userMessage))
                 else
                   Remote (SendMessage userMessage) #
                   chat_outcome inp (post_chat net userMessage))))"

fun remote_ops :: "'n effect list \<Rightarrow> remote_op list" where
  "remote_ops [] = []"
| "remote_ops (Remote op # effs) = op # remote_ops effs"
| "remote_ops (eff # effs) = remote_ops effs"


text \<open>How the Index component, whose handlers are the props of ChatInput, reacts to one
  effect; \<open>cid\<close> is the \<open>currentConversationId\<close> of the render that created the handlers
  the running \<open>handleSubmit\<close> holds.\<close>

fun apply_effect :: "clock \<Rightarrow> string option \<Rightarrow> index_state \<Rightarrow> 'n effect \<Rightarrow> index_state" where
  "apply_effect clk cid st (MessageSent u r isUpdate) = handleMessageSent clk cid u r isUpdate st"
| "apply_effect clk cid st (DocumentUploaded f) = handleDocumentUploaded cid f st"
| "apply_effect clk cid st eff = st"

definition run_effects :: "clock \<Rightarrow> string option \<Rightarrow> 'n effect list \<Rightarrow> index_state \<Rightarrow> index_state" where
  "run_effects clk cid effs st = foldl (apply_effect clk cid) st effs"

section \<open>Persistence (hooks/usePersistentStorage)\<close>

definition MAX_CONVERSATIONS :: nat where
  "MAX_CONVERSATIONS = 50"

text \<open>
  The save effect, run when \<open>conversations\<close> or \<open>isLoaded\<close> changes. \<open>accepts v\<close> says
  whether serializing \<open>v\<close> and \<open>localStorage.setItem\<close> go through without throwing. The
  result is the list of values whose write was attempted, in order, and the value the
  storage key holds afterwards when a write went through (\<open>None\<close>: the key is left as it
  was).
\<close>

definition save_conversations ::
  "(conversation list \<Rightarrow> bool) \<Rightarrow> bool \<Rightarrow> conversation list
     \<Rightarrow> conversation list list \<times> conversation list option" where
  "save_conversations accepts isLoaded convs =
     (if \<not> isLoaded then ([], None)
      else
        (let conversationsToSave =
               map (\<lambda>conv. conv\<lparr>document := None\<rparr>) (take MAX_CONVERSATIONS convs)
         in if accepts conversationsToSave then ([conversationsToSave], Some conversationsToSave)
            else
              (let reducedConversations = take (MAX_CONVERSATIONS div 2) convs
               in if accepts reducedConversations
                  then ([conversationsToSave, reducedConversations], Some reducedConversations)
                  else ([conversationsToSave, reducedConversations], None))))"

section \<open>Sample inputs\<close>

text \<open>A runtime whose \<open>JSON.parse\<close> is tabulated on the payloads used in the examples
  below; every other payload parsed in the examples (\<open>hello\<close>) is not valid JSON, where
  \<open>JSON.parse\<close> throws.\<close>

definition sample_parse :: "string \<Rightarrow> unit jsval option" where
  \<open>sample_parse s =
     map_of [(''{"text":"The "}'', JObj [(''text'', JStr ''The '')]),
             (''{"text":"answer is 42."}'', JObj [(''text'', JStr ''answer is 42.'')]),
             (''{"text":"late"}'', JObj [(''text'', JStr ''late'')]),
             (''{"text":{"toString":1}}'', JObj [(''text'', JObj [(''toString'', JNum ())])]),
             (''{}'', JObj [])] s\<close>

definition sample_runtime :: "unit runtime" where
  "sample_runtime =
     \<lparr>JSON_parse = sample_parse, num_truthy = (\<lambda>n. True), num_toString = (\<lambda>n. ''1'')\<rparr>"

text \<open>Two chunks: two event-data frames, then the terminal sentinel.\<close>

definition answer_frames :: "string list" where
  \<open>answer_frames =
     [''data: {"text":"The "}'' @ [CHR 0x0A] @ ''data: {"text":"answer is 42."}'' @ [CHR 0x0A],
      ''data: [DONE]'' @ [CHR 0x0A]]\<close>

definition both_callbacks :: callbacks where
  "both_callbacks = \<lparr>onAssistantId_given = True, onThreadId_given = True\<rparr>"

text \<open>Streams: one that ends at once, one with a single frame that carries no text, one
  whose only frame is not JSON, and one that goes on after the sentinel.\<close>

definition empty_stream :: "string list" where
  "empty_stream = []"

definition textless_stream :: "string list" where
  \<open>textless_stream = [''data: {}'' @ [CHR 0x0A]]\<close>

definition raw_stream :: "string list" where
  "raw_stream = [''data: hello'' @ [CHR 0x0A]]"

text \<open>A frame whose text is an object with a \<open>toString\<close> key of its own.\<close>

definition unprintable_payload :: string where
  \<open>unprintable_payload = ''{"text":{"toString":1}}''\<close>

definition unprintable_stream :: "string list" where
  "unprintable_stream = [''data: '' @ unprintable_payload @ [CHR 0x0A]]"

definition late_frames :: "string list" where
  \<open>late_frames =
     [''data: {"text":"The "}'' @ [CHR 0x0A] @ ''data: [DONE]'' @ [CHR 0x0A],
      ''data: {"text":"late"}'' @ [CHR 0x0A]]\<close>

text \<open>Endpoints that answer every request with the given chunks and then signal \<open>done\<close>.\<close>

definition chat_stream_of :: "string list \<Rightarrow> string \<Rightarrow> fetch_reply" where
  "chat_stream_of chunks msg = Body chunks True"

definition rag_stream_of :: "string list \<Rightarrow> string \<Rightarrow> jsfile \<Rightarrow> fetch_reply" where
  "rag_stream_of chunks question file = Body chunks True"

definition sample_network :: "unit network" where
  "sample_network =
     \<lparr>fetch_rag_stream = rag_stream_of answer_frames,
      post_search = (\<lambda>q. SearchRejected),
      post_chat = (\<lambda>m. ChatReply (ChatData (Some ''TCP is...''))),
      formatSearchResults = (\<lambda>d. Some ''results'')\<rparr>"

definition sample_clock :: clock where
  "sample_clock =
     \<lparr>new_Date = 1000, now_user = 1000, now_assistant = 1000, now_conversation = 1001\<rparr>"

text \<open>The state after the initial load with nothing stored.\<close>

definition empty_state :: index_state where
  "empty_state =
     \<lparr>conversations = [], currentConversationId = None, showWelcome = True,
      shouldAutoScroll = True, messageCount = 0, isLoading = False,
      loadingType = Thinking, lastError = None\<rparr>"

definition tcp_input :: chat_input where
  "tcp_input =
     \<lparr>message = ''Explain TCP'', isStreaming = False, selectedTool = Chat,
      attachedFile = None, conversationDocument = None\<rparr>"

text \<open>A question about an attached document, asked with the markdown tool selected.\<close>

definition doc_input :: chat_input where
  "doc_input =
     \<lparr>message = ''What is the answer?'', isStreaming = False, selectedTool = Markdown,
      attachedFile = Some (File ''report.pdf''), conversationDocument = None\<rparr>"

definition user_turn :: message where
  "user_turn =
     \<lparr>role = User, content = ''Explain TCP'', isNew = Some False, isThinking = None,
      isError = None, errorType = None, timestamp = 10, msg_id = ''user-10''\<rparr>"

definition pending_turn :: message where
  "pending_turn =
     \<lparr>role = Assistant, content = ''Unico AI is thinking...'', isNew = None,
      isThinking = Some True, isError = None, errorType = None, timestamp = 11,
      msg_id = ''assistant-10''\<rparr>"

definition failed_turn :: message where
  "failed_turn =
     \<lparr>role = Assistant,
      content = ''Sorry, I encountered an error while processing your message. Please try again.'',
      isNew = Some False, isThinking = Some False, isError = Some True,
      errorType = Some Server, timestamp = 11, msg_id = ''assistant-10''\<rparr>"

text \<open>One selected conversation that ends with the given assistant turn.\<close>

definition state_with :: "message \<Rightarrow> index_state" where
  "state_with turn =
     \<lparr>conversations =
        [\<lparr>conv_id = ''7'', title = ''Explain TCP'', messages = [user_turn, turn],
          document = None\<rparr>],
      currentConversationId = Some ''7'', showWelcome = False,
      shouldAutoScroll = True, messageCount = 2, isLoading = False,
      loadingType = Thinking, lastError = None\<rparr>"


text \<open>Twenty-six stored conversations, the first with a bound document, and a storage
  quota that holds twenty-five conversations but not twenty-six.\<close>

definition sample_conv :: "nat \<Rightarrow> conversation" where
  "sample_conv i =
     \<lparr>conv_id = show_nat i, title = ''Chat '' @ show_nat i, messages = [],
      document = (if i = 0 then Some (File ''report.pdf'') else None)\<rparr>"

definition many_conversations :: "conversation list" where
  "many_conversations = map sample_conv [0..<26]"

definition small_quota :: "conversation list \<Rightarrow> bool" where
  "small_quota v = (length v \<le> 25)"

section \<open>Proof tools\<close>

text \<open>\<open>grows acc evs acc'\<close>: started with the accumulated text \<open>acc\<close>, the callbacks \<open>evs\<close>
  carry snapshots that each extend the one before, and \<open>acc'\<close> is the last of them.\<close>

definition grows :: "string \<Rightarrow> 'n callback list \<Rightarrow> string \<Rightarrow> bool" where
  "grows acc evs acc' =
     (acc' = last (acc # snapshots evs) \<and> successively prefix (acc # snapshots evs))"



section \<open>The snapshots of a stream grow by concatenation\<close>

lemma snapshots_append: "snapshots (xs @ ys) = snapshots xs @ snapshots ys"
  by (induction xs rule: snapshots.induct) simp_all

lemma grows_refl: "grows acc [] acc"
  by (simp add: grows_def)

lemma grows_one: "grows acc [OnChunk (acc @ t)] (acc @ t)"
  by (simp add: grows_def)

lemma grows_trans:
  assumes "grows a e1 b" and "grows b e2 c"
  shows "grows a (e1 @ e2) c"
proof (cases "snapshots e2 = []")
  case True
  with assms show ?thesis by (simp add: grows_def snapshots_append)
next
  case False
  with assms show ?thesis
    by (auto simp add: grows_def snapshots_append successively_append_iff successively_Cons
          split: if_splits)
qed

lemma grows_chain: "grows acc evs acc' \<Longrightarrow> successively prefix (snapshots evs)"
  by (cases "snapshots evs") (auto simp add: grows_def successively_Cons)

lemma chain_lengths: "successively prefix (xs :: string list) \<Longrightarrow> sorted (map length xs)"
proof (induction xs rule: induct_list012)
  case (3 x y zs)
  then show ?case by (auto simp add: prefix_length_le dest: prefix_length_le order_trans)
qed simp_all

lemma send_line_grows: "send_line rt acc l = (acc', evs) \<Longrightarrow> grows acc evs acc'"
  by (auto simp add: send_line_def grows_def split: if_splits option.splits)

lemma send_lines_grows: "send_lines rt acc ls = (acc', evs) \<Longrightarrow> grows acc evs acc'"
proof (induction ls arbitrary: acc acc' evs)
  case Nil
  then show ?case by (simp add: grows_refl)
next
  case (Cons l ls)
  then show ?case
    by (auto split: prod.splits intro: grows_trans send_line_grows)
qed

lemma send_chunks_grows: "send_chunks rt acc cs = (acc', evs) \<Longrightarrow> grows acc evs acc'"
proof (induction cs arbitrary: acc acc' evs)
  case Nil
  then show ?case by (simp add: grows_refl)
next
  case (Cons c cs)
  then show ?case
    by (auto split: prod.splits intro: grows_trans send_lines_grows)
qed

lemma rag_parsed_grows:
  "rag_parsed rt cb st d = Some (st', evs) \<Longrightarrow> grows (fst st) evs (fst st')"
  by (auto simp add: rag_parsed_def grows_def Let_def split: if_splits option.splits)

lemma rag_raw_grows: "rag_raw st l = (st', evs) \<Longrightarrow> grows (fst st) evs (fst st')"
  by (auto simp add: rag_raw_def grows_def Let_def split: if_splits)

lemma rag_line_grows: "rag_line rt cb st l = (brk, st', evs) \<Longrightarrow> grows (fst st) evs (fst st')"
  by (auto simp add: rag_line_def Let_def grows_refl grows_one split: if_splits option.splits
        dest: rag_parsed_grows rag_raw_grows)

lemma rag_lines_grows: "rag_lines rt cb st ls = (st', evs) \<Longrightarrow> grows (fst st) evs (fst st')"
proof (induction ls arbitrary: st st' evs)
  case Nil
  then show ?case by (simp add: grows_refl)
next
  case (Cons l ls)
  obtain brk st1 evs1 where l: "rag_line rt cb st l = (brk, st1, evs1)"
    by (metis prod_cases3)
  have g1: "grows (fst st) evs1 (fst st1)" by (rule rag_line_grows [OF l])
  show ?case
  proof (cases brk)
    case True
    with Cons.prems l g1 show ?thesis by simp
  next
    case False
    obtain st2 evs2 where r: "rag_lines rt cb st1 ls = (st2, evs2)"
      by (cases "rag_lines rt cb st1 ls") blast
    have g2: "grows (fst st1) evs2 (fst st2)" by (rule Cons.IH [OF r])
    from Cons.prems l r False have "st' = st2" "evs = evs1 @ evs2" by simp_all
    with grows_trans [OF g1 g2] show ?thesis by simp
  qed
qed

lemma rag_chunks_grows: "rag_chunks rt cb st cs = (st', evs) \<Longrightarrow> grows (fst st) evs (fst st')"
proof (induction cs arbitrary: st st' evs)
  case Nil
  then show ?case by (simp add: grows_refl)
next
  case (Cons c cs)
  obtain st1 evs1 where l: "rag_lines rt cb st (split_newline c) = (st1, evs1)"
    by (cases "rag_lines rt cb st (split_newline c)") blast
  obtain st2 evs2 where r: "rag_chunks rt cb st1 cs = (st2, evs2)"
    by (cases "rag_chunks rt cb st1 cs") blast
  have g1: "grows (fst st) evs1 (fst st1)" by (rule rag_lines_grows [OF l])
  have g2: "grows (fst st1) evs2 (fst st2)" by (rule Cons.IH [OF r])
  from Cons.prems l r have "st' = st2" "evs = evs1 @ evs2" by simp_all
  with grows_trans [OF g1 g2] show ?case by simp
qed

text \<open>More chunks only add callbacks after the ones already made.\<close>

lemma send_chunks_append:
  "send_chunks rt acc (cs1 @ cs2) =
     (case send_chunks rt acc cs1 of (acc1, evs1) \<Rightarrow>
        (case send_chunks rt acc1 cs2 of (acc2, evs2) \<Rightarrow> (acc2, evs1 @ evs2)))"
  by (induction cs1 arbitrary: acc) (auto split: prod.splits)

lemma rag_chunks_append:
  "rag_chunks rt cb st (cs1 @ cs2) =
     (case rag_chunks rt cb st cs1 of (st1, evs1) \<Rightarrow>
        (case rag_chunks rt cb st1 cs2 of (st2, evs2) \<Rightarrow> (st2, evs1 @ evs2)))"
  by (induction cs1 arbitrary: st) (auto split: prod.splits)

lemma sendMessageStream_chain:
  "successively prefix (snapshots (fst (sendMessageStream rt fetch msg)))"
proof (cases "fetch msg")
  case (Body chunks ended)
  obtain acc evs where r: "send_chunks rt [] chunks = (acc, evs)"
    by (cases "send_chunks rt [] chunks") blast
  from grows_chain [OF send_chunks_grows [OF r]] Body r show ?thesis
    by (simp add: sendMessageStream_def)
qed (simp_all add: sendMessageStream_def)

lemma ragQueryStream_chain:
  "successively prefix (snapshots (fst (ragQueryStream rt fetch question doc cb)))"
proof (cases "fetch question doc")
  case (Body chunks ended)
  obtain st evs where r: "rag_chunks rt cb ([], False) chunks = (st, evs)"
    by (cases "rag_chunks rt cb ([], False) chunks") blast
  from grows_chain [OF rag_chunks_grows [OF r]] Body r show ?thesis
    by (simp add: ragQueryStream_def split: prod.splits)
qed (simp_all add: ragQueryStream_def)

lemma sendMessageStream_arrival_order:
  "prefix (fst (sendMessageStream rt (\<lambda>u. Body cs e) msg))
          (fst (sendMessageStream rt (\<lambda>u. Body (cs @ cs') e') msg))"
  by (auto simp add: sendMessageStream_def send_chunks_append split: prod.splits)

lemma ragQueryStream_arrival_order:
  "prefix (fst (ragQueryStream rt (\<lambda>q f. Body cs e) question doc cb))
          (fst (ragQueryStream rt (\<lambda>q f. Body (cs @ cs') e') question doc cb))"
  by (auto simp add: ragQueryStream_def rag_chunks_append split: prod.splits)

text \<open>
  C1. For both streaming operations and every reply of the network, the snapshots passed
  to the update callback form a chain: each one is a prefix-extension of the one emitted
  before it, so their lengths never decrease. They are emitted in arrival order: when
  the stream delivers further chunks, the callbacks made for the chunks so far stay as
  they are and the new ones follow them.
\<close>

theorem snapshots_prefix_monotone:
  "successively prefix (snapshots (fst (sendMessageStream rt fetch_chat msg)))
   \<and> sorted (map length (snapshots (fst (sendMessageStream rt fetch_chat msg))))
   \<and> successively prefix (snapshots (fst (ragQueryStream rt fetch_rag question doc cb)))
   \<and> sorted (map length (snapshots (fst (ragQueryStream rt fetch_rag question doc cb))))
   \<and> prefix (fst (sendMessageStream rt (\<lambda>u. Body cs e) msg))
             (fst (sendMessageStream rt (\<lambda>u. Body (cs @ cs') e') msg))
   \<and> prefix (fst (ragQueryStream rt (\<lambda>q f. Body cs e) question doc cb))
             (fst (ragQueryStream rt (\<lambda>q f. Body (cs @ cs') e') question doc cb))"
  using sendMessageStream_chain [of rt fetch_chat msg]
        ragQueryStream_chain [of rt fetch_rag question doc cb]
        sendMessageStream_arrival_order [of rt cs e msg cs' e']
        ragQueryStream_arrival_order [of rt cs e question doc cb cs' e']
  by (simp add: chain_lengths)

text \<open>The two frames of the sample stream give two snapshots, the second extending the
  first.\<close>

theorem snapshots_prefix_monotone_witness:
  "snapshots (fst (ragQueryStream sample_runtime (rag_stream_of answer_frames)
                     ''What is the answer?'' (File ''report.pdf'') both_callbacks))
     = [''The '', ''The answer is 42.'']
   \<and> successively prefix [''The '', ''The answer is 42.'']
   \<and> sorted (map length [''The '', ''The answer is 42.''])"
proof -
  have r: "snapshots (fst (ragQueryStream sample_runtime (rag_stream_of answer_frames)
                     ''What is the answer?'' (File ''report.pdf'') both_callbacks))
     = [''The '', ''The answer is 42.'']"
    by code_simp
  from snapshots_prefix_monotone [of sample_runtime "chat_stream_of answer_frames"
         "''What is the answer?''" "rag_stream_of answer_frames" "''What is the answer?''"
         "File ''report.pdf''" both_callbacks "[]" True "[]" True] r
  show ?thesis by (simp del: successively.simps sorted_wrt.simps)
qed


section \<open>The end of a stream\<close>

lemma rag_line_received:
  "rag_line rt cb st l = (brk, st', evs) \<Longrightarrow> snd st' = (snd st \<or> snapshots evs \<noteq> [])"
  by (auto simp add: rag_line_def rag_raw_def rag_parsed_def Let_def
        split: if_splits option.splits)

lemma rag_lines_received:
  "rag_lines rt cb st ls = (st', evs) \<Longrightarrow> snd st' = (snd st \<or> snapshots evs \<noteq> [])"
proof (induction ls arbitrary: st st' evs)
  case Nil
  then show ?case by auto
next
  case (Cons l ls)
  obtain brk st1 evs1 where l: "rag_line rt cb st l = (brk, st1, evs1)"
    by (metis prod_cases3)
  note r1 = rag_line_received [OF l]
  show ?case
  proof (cases brk)
    case True
    with Cons.prems l r1 show ?thesis by simp
  next
    case False
    obtain st2 evs2 where r: "rag_lines rt cb st1 ls = (st2, evs2)"
      by (cases "rag_lines rt cb st1 ls") blast
    note r2 = Cons.IH [OF r]
    from Cons.prems l r False have "st' = st2" "evs = evs1 @ evs2" by simp_all
    with r1 r2 show ?thesis by (auto simp add: snapshots_append)
  qed
qed

lemma rag_chunks_received:
  "rag_chunks rt cb st cs = (st', evs) \<Longrightarrow> snd st' = (snd st \<or> snapshots evs \<noteq> [])"
proof (induction cs arbitrary: st st' evs)
  case Nil
  then show ?case by auto
next
  case (Cons c cs)
  obtain st1 evs1 where l: "rag_lines rt cb st (split_newline c) = (st1, evs1)"
    by (cases "rag_lines rt cb st (split_newline c)") blast
  obtain st2 evs2 where r: "rag_chunks rt cb st1 cs = (st2, evs2)"
    by (cases "rag_chunks rt cb st1 cs") blast
  note r1 = rag_lines_received [OF l]
  note r2 = Cons.IH [OF r]
  from Cons.prems l r have "st' = st2" "evs = evs1 @ evs2" by simp_all
  with r1 r2 show ?case by (auto simp add: snapshots_append)
qed

text \<open>The document-QA stream has the guard: a stream that ends without a single
  snapshot makes the operation throw.\<close>

lemma ragQueryStream_empty_fails:
  assumes "fetch question doc = Body chunks True"
    and "snapshots (fst (ragQueryStream rt fetch question doc cb)) = []"
  shows "snd (ragQueryStream rt fetch question doc cb) = Inl NoResponseData"
proof -
  obtain st evs where r: "rag_chunks rt cb ([], False) chunks = (st, evs)"
    by (cases "rag_chunks rt cb ([], False) chunks") blast
  from rag_chunks_received [OF r] assms r show ?thesis
    by (cases st) (auto simp add: ragQueryStream_def split: if_splits)
qed

text \<open>
  C4. The plain chat stream has no such guard. On a stream that ends at once, and on a
  stream whose only frame carries no text, \<open>sendMessageStream\<close> makes no callback and
  returns the empty text as a success, where \<open>ragQueryStream\<close> throws on the same stream.
\<close>

theorem sendMessageStream_returns_empty_text:
  "sendMessageStream sample_runtime (chat_stream_of empty_stream) ''Explain TCP'' = ([], Inr [])
   \<and> sendMessageStream sample_runtime (chat_stream_of textless_stream) ''Explain TCP''
       = ([], Inr [])
   \<and> ragQueryStream sample_runtime (rag_stream_of textless_stream) ''Explain TCP''
         (File ''report.pdf'') both_callbacks
       = ([], Inl NoResponseData)"
  by code_simp

section \<open>Payloads that are not JSON\<close>

text \<open>
  C7. For the event-data line \<open>data: hello\<close>, whose payload \<open>JSON.parse\<close> rejects, the
  plain chat stream drops the payload (no callback, empty result), where the document-QA
  stream appends it and emits the snapshot.
\<close>

theorem sendMessageStream_drops_raw_payload:
  "sendMessageStream sample_runtime (chat_stream_of raw_stream) ''Explain TCP'' = ([], Inr [])
   \<and> ragQueryStream sample_runtime (rag_stream_of raw_stream) ''Explain TCP''
         (File ''report.pdf'') both_callbacks
       = ([OnChunk ''hello''], Inr ''hello'')"
  by code_simp

text \<open>A text that cannot be converted to a string makes the concatenation throw inside
  the \<open>try\<close>: the plain chat stream then emits nothing, the document-QA stream falls
  back to the raw payload.\<close>

lemma unprintable_text_is_caught:
  "sendMessageStream sample_runtime (chat_stream_of unprintable_stream) ''Explain TCP''
     = ([], Inr [])
   \<and> ragQueryStream sample_runtime (rag_stream_of unprintable_stream) ''Explain TCP''
         (File ''report.pdf'') both_callbacks
       = ([OnChunk unprintable_payload], Inr unprintable_payload)"
  by code_simp

section \<open>The terminal sentinel\<close>

text \<open>Within one chunk, the lines after the sentinel are not looked at.\<close>

lemma rag_lines_stop_at_done:
  assumes "trim l \<noteq> []" and "startsWith l ''data: ''" and "trim (slice 6 l) = ''[DONE]''"
  shows "rag_lines rt cb st (l # rest) = (st, [])"
  using assms by (simp add: rag_line_def)

text \<open>
  C8. The sentinel ends the loop over the lines of its chunk only. When a further chunk
  arrives after the chunk with the sentinel, its frame is decoded: the text \<open>late\<close> is
  appended, a second snapshot is emitted and the returned text contains it.
\<close>

theorem ragQueryStream_reads_on_after_sentinel:
  "ragQueryStream sample_runtime (rag_stream_of late_frames) ''What is the answer?''
      (File ''report.pdf'') both_callbacks
     = ([OnChunk ''The '', OnChunk ''The late''], Inr ''The late'')"
  by code_simp


section \<open>The reduced write\<close>

text \<open>The first write: at most fifty conversations, each without its document.\<close>

lemma save_first_attempt:
  assumes "save_conversations accepts True convs = (attempts, stored)"
  shows "attempts \<noteq> [] \<and> length (hd attempts) \<le> 50
         \<and> list_all (\<lambda>conv. document conv = None) (hd attempts)
         \<and> length attempts \<le> 2"
  using assms
  by (auto simp add: save_conversations_def MAX_CONVERSATIONS_def Let_def list_all_iff
        split: if_splits)

text \<open>
  C9. When the first write is refused, the reduced write takes the first twenty-five
  conversations as they are in memory: the document of the first conversation is still
  there in the value that ends up stored.
\<close>

theorem reduced_write_keeps_documents:
  "map_option (map document) (snd (save_conversations small_quota True many_conversations))
     = Some (Some (File ''report.pdf'') # replicate 24 None)"
  by code_simp

section \<open>Submission and retry\<close>

text \<open>Every submission that passes the entry check first clears the input and appends
  the pair through one call of \<open>onMessageSent\<close>; the remote operation comes after.\<close>

lemma placeholder_precedes_remote:
  assumes "trim (message inp) \<noteq> []" and "\<not> isStreaming inp"
  shows "take 2 (handleSubmit rt net inp)
           = [SetMessage [], MessageSent (message inp) ''Friday is thinking...'' False]
         \<and> remote_ops (handleSubmit rt net inp)
             = remote_ops (drop 2 (handleSubmit rt net inp))"
  using assms by (simp add: handleSubmit_def Let_def)

text \<open>
  C3. A plain chat submission of \<open>Explain TCP\<close> with no conversation selected: the pair is
  appended before the remote operation starts, but \<open>handleSubmit\<close> passes the placeholder
  text \<open>Friday is thinking...\<close> while \<open>handleMessageSent\<close> recognises only
  \<open>Unico AI is thinking...\<close>, so the placeholder is stored with \<open>isThinking\<close> false and
  the loading flag stays off.
\<close>

theorem placeholder_is_not_thinking:
  "handleSubmit sample_runtime sample_network tcp_input
     = [SetMessage [],
        MessageSent ''Explain TCP'' ''Friday is thinking...'' False,
        Remote (SendMessage ''Explain TCP''),
        MessageSent ''Explain TCP'' ''TCP is...'' True]
   \<and> run_effects sample_clock None
         (take 2 (handleSubmit sample_runtime sample_network tcp_input)) empty_state
     = \<lparr>conversations =
          [\<lparr>conv_id = ''1001'', title = ''Explain TCP'',
            messages =
              [\<lparr>role = User, content = ''Explain TCP'', isNew = Some True,
                isThinking = None, isError = None, errorType = None,
                timestamp = 1000, msg_id = ''user-1000''\<rparr>,
               \<lparr>role = Assistant, content = ''Friday is thinking...'', isNew = None,
                isThinking = Some False, isError = None, errorType = None,
                timestamp = 1001, msg_id = ''assistant-1000''\<rparr>],
            document = None\<rparr>],
        currentConversationId = Some ''1001'', showWelcome = False,
        shouldAutoScroll = True, messageCount = 2, isLoading = False,
        loadingType = Thinking, lastError = None\<rparr>"
  by code_simp

text \<open>A retry in a selected conversation removes no conversation and changes no message
  that is already there.\<close>

lemma retry_keeps_messages:
  assumes "currentConversationId st = Some c" and "c \<noteq> []"
    and "i < length (conversations st)"
  shows "length (conversations (handleRetryMessage clk messageId st)) = length (conversations st)
         \<and> prefix (messages (conversations st ! i))
                   (messages (conversations (handleRetryMessage clk messageId st) ! i))"
  using assms
  by (auto simp add: handleRetryMessage_def handleMessageSent_def Let_def
        split: option.splits)

text \<open>
  C6. Retrying the failed assistant turn of the selected conversation: the failed turn
  and the user turn before it stay as they were and a new pending pair is appended
  after them. That is all the handler does: the result is a state of the store with the
  loading flag on, and no remote operation is started for the new pending turn.
\<close>

theorem retry_only_appends:
  "handleRetryMessage sample_clock ''assistant-10'' (state_with failed_turn)
     = \<lparr>conversations =
          [\<lparr>conv_id = ''7'', title = ''Explain TCP'',
            messages =
              [user_turn, failed_turn,
               \<lparr>role = User, content = ''Explain TCP'', isNew = Some True,
                isThinking = None, isError = None, errorType = None,
                timestamp = 1000, msg_id = ''user-1000''\<rparr>,
               \<lparr>role = Assistant, content = ''Unico AI is thinking...'', isNew = None,
                isThinking = Some True, isError = None, errorType = None,
                timestamp = 1001, msg_id = ''assistant-1000''\<rparr>],
            document = None\<rparr>],
        currentConversationId = Some ''7'', showWelcome = False,
        shouldAutoScroll = True, messageCount = 4, isLoading = True,
        loadingType = Thinking, lastError = None\<rparr>"
  by code_simp


section \<open>What a submission starts\<close>

lemma remote_ops_append: "remote_ops (xs @ ys) = remote_ops xs @ remote_ops ys"
  by (induction xs rule: remote_ops.induct) simp_all

lemma remote_ops_relay: "remote_ops (map (relay u) cbs) = []"
proof (induction cbs)
  case (Cons cb cbs)
  then show ?case by (cases cb) simp_all
qed simp

lemma remote_ops_catch: "remote_ops (catch_block inp) = []"
  by (simp add: catch_block_def)

lemma remote_ops_chat_outcome: "remote_ops (chat_outcome inp reply) = []"
  by (simp add: chat_outcome_def remote_ops_catch
        split: chat_reply.splits chat_data.splits option.splits)




text \<open>
  C5. A submission that passes the entry check of \<open>handleSubmit\<close> (a message that is
  not blank, no stream in progress) starts exactly one remote operation: the document-QA
  stream when a document is attached or bound to the conversation, whatever tool is
  selected; otherwise the search operation in web-search mode, the chat operation on the
  input wrapped in the fixed instruction template in markdown mode, and the chat
  operation on the input itself by default.
\<close>

theorem dispatch_precedence:
  assumes "trim (message inp) \<noteq> []" and "\<not> isStreaming inp"
  shows "remote_ops (handleSubmit rt net inp) =
     [case attachedFile inp of
        Some doc \<Rightarrow> RagQueryStream (message inp) doc
      | None \<Rightarrow>
          (case conversationDocument inp of
             Some doc \<Rightarrow> RagQueryStream (message inp) doc
           | None \<Rightarrow>
               (case selectedTool inp of
                  DeepSearch \<Rightarrow> PerformDeepSearch (message inp)
                | Markdown \<Rightarrow>
                    SendMessage
                      (''Convert the following text to well-formatted markdown: ''
                         @ message inp)
                | Chat \<Rightarrow> SendMessage (message inp)))]"
  using assms
  by (cases "selectedTool inp")
     (auto simp add: handleSubmit_def documentToUse_def Let_def remote_ops_append
        remote_ops_relay remote_ops_catch remote_ops_chat_outcome markdownPrompt_def
        split: option.splits prod.splits sum.splits search_reply.splits)

text \<open>With a document attached and the markdown tool selected, the one operation started
  is the document-QA stream.\<close>

theorem dispatch_precedence_witness:
  "trim (message doc_input) \<noteq> [] \<and> \<not> isStreaming doc_input
   \<and> selectedTool doc_input = Markdown
   \<and> remote_ops (handleSubmit sample_runtime sample_network doc_input)
       = [RagQueryStream ''What is the answer?'' (File ''report.pdf'')]"
proof -
  have h1: "trim (message doc_input) \<noteq> []" by code_simp
  have h2: "\<not> isStreaming doc_input" by (simp add: doc_input_def)
  have "attachedFile doc_input = Some (File ''report.pdf'')"
    and "message doc_input = ''What is the answer?''"
    and "selectedTool doc_input = Markdown"
    by (simp_all add: doc_input_def)
  with dispatch_precedence [OF h1 h2, of sample_runtime sample_network] h1 h2
  show ?thesis by simp
qed

section \<open>The update of the trailing assistant message\<close>

lemma update_messages_id:
  "\<forall>m\<in>set ms. role m = User \<Longrightarrow> update_messages r ms = ms"
  by (induction ms) auto

lemma update_messages_last_assistant:
  assumes "role m = Assistant" and "\<forall>m'\<in>set post. role m' = User"
  shows "update_messages r (pre @ m # post) = pre @ updated_message r m # post"
  using assms
proof (induction pre)
  case Nil
  then show ?case by (auto simp add: update_messages_id list_ex_iff)
next
  case (Cons p pre)
  then show ?case by (auto simp add: list_ex_iff)
qed

lemma update_conversations_nth:
  assumes "i < length convs" and "isTargetConversation cid convs (convs ! i)"
  shows "update_conversations cid r convs ! i
           = (convs ! i)\<lparr>messages := update_messages r (messages (convs ! i))\<rparr>"
  using assms by (simp add: update_conversations_def)

lemma update_effect:
  assumes "i < length (conversations st)"
    and "isTargetConversation cid (conversations st) (conversations st ! i)"
    and "messages (conversations st ! i) = pre @ m # post"
    and "role m = Assistant" and "\<forall>m'\<in>set post. role m' = User"
  shows "messages (conversations (handleMessageSent clk cid u r True st) ! i)
           = pre @ updated_message r m # post"
  using assms
  by (simp add: handleMessageSent_def update_conversations_nth update_messages_last_assistant)

lemma startsWith_iff: "startsWith s p \<longleftrightarrow> (\<exists>b. s = p @ b)"
  unfolding startsWith_def
  by (metis append_eq_conv_conj append_take_drop_id)

lemma includes_str_iff: "includes_str s p \<longleftrightarrow> (\<exists>a b. s = a @ p @ b)"
proof (induction s)
  case Nil
  then show ?case by simp
next
  case (Cons c cs)
  show ?case
  proof
    assume "includes_str (c # cs) p"
    then consider "startsWith (c # cs) p" | "includes_str cs p" by auto
    then show "\<exists>a b. c # cs = a @ p @ b"
    proof cases
      case 1
      then obtain b where "c # cs = p @ b" by (auto simp add: startsWith_iff)
      then have "c # cs = [] @ p @ b" by simp
      then show ?thesis by blast
    next
      case 2
      with Cons.IH obtain a b where "cs = a @ p @ b" by blast
      then have "c # cs = (c # a) @ p @ b" by simp
      then show ?thesis by blast
    qed
  next
    assume "\<exists>a b. c # cs = a @ p @ b"
    then obtain a b where ab: "c # cs = a @ p @ b" by blast
    show "includes_str (c # cs) p"
    proof (cases a)
      case Nil
      with ab have "startsWith (c # cs) p" by (auto simp add: startsWith_iff)
      then show ?thesis by simp
    next
      case (Cons x a')
      with ab have "cs = a' @ p @ b" by simp
      with Cons.IH have "includes_str cs p" by blast
      then show ?thesis by simp
    qed
  qed
qed

lemma includes_str_sublist: "includes_str s p = sublist p s"
  by (simp add: includes_str_iff sublist_def)

lemma toLowerCase_append: "toLowerCase (a @ b) = toLowerCase a @ toLowerCase b"
  by (simp add: toLowerCase_def)

lemma includes_str_prefix: "p \<noteq> [] \<Longrightarrow> includes_str (p @ r) p"
  by (cases p) (simp_all add: startsWith_def)

lemma errorMessage_is_error:
  "includes_str (toLowerCase (errorMessage inp)) ''sorry, i encountered an error''"
proof -
  have "toLowerCase ''Sorry, I encountered an error'' = ''sorry, i encountered an error''"
    by code_simp
  then have "toLowerCase (errorMessage inp)
      = ''sorry, i encountered an error''
          @ toLowerCase ('' while processing your '' @ toolName inp @ ''. Please try again.'')"
    unfolding errorMessage_def
    by (metis (no_types, lifting) toLowerCase_append append.assoc append_Cons append_Nil)
  moreover have "includes_str (''sorry, i encountered an error'' @ x)
                   ''sorry, i encountered an error''" for x
    by (rule includes_str_prefix) simp
  ultimately show ?thesis by (simp only:)
qed

text \<open>
  C10. An update of the trailing assistant message of a target conversation replaces its
  content and marks it as an error, with error type server, exactly when the lowercased
  content contains one of the three phrases, and clears the error fields otherwise:
  whatever the content is an answer to. The text that \<open>handleSubmit\<close> writes for a
  caught failure contains the first phrase for every tool, so every failure surfaced
  through it is marked with error type server.
\<close>

theorem error_marking_by_content:
  assumes "i < length (conversations st)"
    and "isTargetConversation cid (conversations st) (conversations st ! i)"
    and "messages (conversations st ! i) = pre @ m # post"
    and "role m = Assistant" and "\<forall>m'\<in>set post. role m' = User"
  shows "messages (conversations (handleMessageSent clk cid u r True st) ! i)
           = pre @ m\<lparr>content := r, isThinking := Some False, isNew := Some False,
                      isError := Some (isErrorResponse r),
                      errorType := (if isErrorResponse r then Some Server else None)\<rparr> # post
         \<and> isErrorResponse r
             = (sublist ''sorry, i encountered an error'' (toLowerCase r)
                \<or> sublist ''failed to'' (toLowerCase r)
                \<or> sublist ''error occurred'' (toLowerCase r))
         \<and> isErrorResponse (errorMessage inp)"
  using update_effect [OF assms, of clk u r] errorMessage_is_error [of inp]
  by (simp add: updated_message_def isErrorResponse_def includes_str_sublist)

text \<open>An answer that happens to contain \<open>failed to\<close> is marked as a server error.\<close>

theorem error_marking_by_content_witness:
  "0 < length (conversations (state_with pending_turn))
   \<and> isTargetConversation (Some ''7'') (conversations (state_with pending_turn))
        (conversations (state_with pending_turn) ! 0)
   \<and> messages (conversations (state_with pending_turn) ! 0) = [user_turn] @ pending_turn # []
   \<and> role pending_turn = Assistant
   \<and> messages (conversations
        (handleMessageSent sample_clock (Some ''7'') ''Explain TCP'' ''It failed to compile.''
           True (state_with pending_turn)) ! 0)
       = [user_turn,
          pending_turn\<lparr>content := ''It failed to compile.'', isThinking := Some False,
                       isNew := Some False, isError := Some True,
                       errorType := Some Server\<rparr>]"
proof -
  have h1: "0 < length (conversations (state_with pending_turn))"
    by (simp add: state_with_def)
  have h2: "isTargetConversation (Some ''7'') (conversations (state_with pending_turn))
        (conversations (state_with pending_turn) ! 0)"
    by (simp add: state_with_def isTargetConversation_def)
  have h3: "messages (conversations (state_with pending_turn) ! 0) = [user_turn] @ pending_turn # []"
    by (simp add: state_with_def)
  have h4: "role pending_turn = Assistant" by (simp add: pending_turn_def)
  have h5: "\<forall>m'\<in>set []. role m' = User" by simp
  have e: "isErrorResponse ''It failed to compile.''" by code_simp
  from error_marking_by_content [OF h1 h2 h3 h4 h5, of sample_clock "''Explain TCP''"
         "''It failed to compile.''" tcp_input] e h1 h2 h3 h4
  show ?thesis by simp
qed


section \<open>Snapshots and the store\<close>



lemma run_effects_append:
  "run_effects clk cid (xs @ ys) st = run_effects clk cid ys (run_effects clk cid xs st)"
  by (simp add: run_effects_def)










lemma new_messages_shape:
  "new_messages clk u r = [hd (new_messages clk u r), last (new_messages clk u r)]
   \<and> role (last (new_messages clk u r)) = Assistant"
  by (simp add: new_messages_def)











end
